theory Spec2Isabelle
  imports Complex_Main "HOL-Library.Multiset" "HOL-Library.Word" "HOL-Library.Log_Nat"
begin

section \<open>Exceptions and tabular data\<close>

text \<open>
  The notebook \<^verbatim>\<open>MLModel.ipynb\<close> is a straight-line script over four collaborators:
  Polars (data frames), scikit-learn (linear regression and \<open>r2_score\<close>), pickle with
  \<open>io.BytesIO\<close>, and the boto3 S3 client. Every exception of the run is a value of
  \<open>exn\<close>; all of them are subclasses of Python's \<open>Exception\<close>.
\<close>

datatype exn =
    ValueError string
  | ShapeError string
  | ClientError string
  | OSError string
  | UnpicklingError string
  | NotFittedError string
  | AttributeError string

fun str_exn :: "exn \<Rightarrow> string" where
  "str_exn (ValueError m) = m"
| "str_exn (ShapeError m) = m"
| "str_exn (ClientError m) = m"
| "str_exn (OSError m) = m"
| "str_exn (UnpicklingError m) = m"
| "str_exn (NotFittedError m) = m"
| "str_exn (AttributeError m) = m"

text \<open>
  An entry of a floating-point column is null, not-a-number, an infinity (\<open>True\<close> for the
  positive one) or a finite number, given by its exact value. A row of a frame holds the
  two columns \<open>MeanDailyTemperature\<close> and \<open>IceCreamSales\<close>.
\<close>

datatype entry = Null | NotANumber | Infinite bool | Num real

type_synonym frame = "(entry \<times> entry) list"

text \<open>Data whose entries are all finite numbers.\<close>

type_synonym row = "real \<times> real"
type_synonym dataset = "row list"

definition frame_of :: "dataset \<Rightarrow> frame" where
  "frame_of df = map (\<lambda>(x, y). (Num x, Num y)) df"

section \<open>Double precision\<close>

text \<open>
  A double is written as its exact real value. \<open>f64_round x\<close> is the double nearest to
  \<open>x\<close>, ties going to the even significand: with \<open>2^e \<le> |x| < 2^(e+1)\<close> the doubles
  around \<open>x\<close> are the multiples of \<open>2^(e-52)\<close>, and of \<open>2^(-1074)\<close> below the normal
  range. A result beyond the largest double, which the machine makes infinite, is left as
  the large number it is.
\<close>

definition pow2 :: "int \<Rightarrow> real" where
  "pow2 i = (if 0 \<le> i then 2 ^ nat i else 1 / 2 ^ nat (- i))"

definition round_half_even :: "real \<Rightarrow> int" where
  "round_half_even y =
     (let n = \<lfloor>y\<rfloor>; d = y - of_int n
      in if d < 1 / 2 then n
         else if 1 / 2 < d then n + 1
         else if even n then n else n + 1)"

definition f64_exponent :: "real \<Rightarrow> int" where
  "f64_exponent x =
     (if 1 \<le> x then bitlen \<lfloor>x\<rfloor> - 1
      else let k = bitlen \<lfloor>1 / x\<rfloor> - 1
           in if 1 / x = pow2 k then - k else - k - 1)"

definition f64_round_pos :: "real \<Rightarrow> real" where
  "f64_round_pos x =
     (let e = max (f64_exponent x) (- 1022);
          ulp = pow2 (e - 52)
      in of_int (round_half_even (x / ulp)) * ulp)"

definition f64_round :: "real \<Rightarrow> real" where
  "f64_round x =
     (if x = 0 then 0
      else if x < 0 then - f64_round_pos (- x)
      else f64_round_pos x)"

section \<open>Splitting: \<open>DataFrame.sample\<close> followed by an anti-join\<close>

text \<open>
  The pseudo-random generator of Polars is a parameter: \<open>rng seed height n\<close> is the list
  of row indices drawn for that seed. What Polars guarantees of a draw without
  replacement is \<open>valid_sample\<close>.
\<close>

type_synonym sampler = "nat \<Rightarrow> nat \<Rightarrow> nat \<Rightarrow> nat list"

definition valid_sample :: "nat list \<Rightarrow> nat \<Rightarrow> nat \<Rightarrow> bool" where
  "valid_sample idxs height n \<longleftrightarrow>
     distinct idxs \<and> length idxs = n \<and> list_all (\<lambda>i. i < height) idxs"

text \<open>
  The sample size of \<open>df.sample(fraction=f, ...)\<close>: the height is converted to a double,
  multiplied by the fraction in double precision, and the product is cast to an unsigned
  integer, which truncates and takes a negative product to 0. The fraction is the value
  of the Python float passed.
\<close>

definition sample_size :: "nat \<Rightarrow> real \<Rightarrow> nat" where
  "sample_size height fraction = nat \<lfloor>f64_round (f64_round (real height) * fraction)\<rfloor>"

text \<open>
  \<open>df.sample(fraction=f, with_replacement=False, shuffle=True, seed=s)\<close>: a sample size
  above the height is refused, otherwise the rows at the drawn indices are returned.
\<close>

definition sample :: "sampler \<Rightarrow> frame \<Rightarrow> real \<Rightarrow> nat \<Rightarrow> exn + frame" where
  "sample rng df fraction seed =
     (let n = sample_size (length df) fraction
      in if n > length df
         then Inl (ShapeError ''cannot take a larger sample than the total population'')
         else Inr (map (\<lambda>i. df ! i) (rng seed (length df) n)))"

text \<open>
  \<open>df.join(other, on=df.columns, how='anti')\<close>: the rows of \<open>df\<close>, in order, that match
  no row of \<open>other\<close>. Two rows match when they agree on both columns and neither holds
  a null: a null key matches nothing, not even another null.
\<close>

definition key_match :: "entry \<times> entry \<Rightarrow> entry \<times> entry \<Rightarrow> bool" where
  "key_match r r' \<longleftrightarrow> fst r \<noteq> Null \<and> snd r \<noteq> Null \<and> r = r'"

definition anti_join :: "frame \<Rightarrow> frame \<Rightarrow> frame" where
  "anti_join df other = filter (\<lambda>r. \<not> list_ex (key_match r) other) df"

text \<open>The split cell: sample the training rows, anti-join for the test rows.\<close>

definition split :: "sampler \<Rightarrow> frame \<Rightarrow> real \<Rightarrow> nat \<Rightarrow> exn + frame \<times> frame" where
  "split rng df fraction seed =
     (case sample rng df fraction seed of
        Inl e \<Rightarrow> Inl e
      | Inr df_train \<Rightarrow> Inr (df_train, anti_join df df_train))"

text \<open>The Python float written \<open>0.7\<close>.\<close>

definition TRAIN_FRAC :: real where
  "TRAIN_FRAC = 3152519739159347 / 4503599627370496"


section \<open>Linear regression and the coefficient of determination\<close>

text \<open>
  A fitted \<open>LinearRegression\<close> with one feature holds \<open>coef_[0]\<close> and \<open>intercept_\<close>;
  an estimator that was constructed but not fitted holds neither.
\<close>

record lin_model =
  coef :: real
  intercept :: real

type_synonym estimator = "lin_model option"

definition mean :: "real list \<Rightarrow> real" where
  "mean vs = sum_list vs / real (length vs)"

text \<open>\<open>Series.to_numpy()\<close> on a floating-point column: a null becomes not-a-number.\<close>

definition to_numpy :: "entry list \<Rightarrow> entry list" where
  "to_numpy col = map (\<lambda>c. if c = Null then NotANumber else c) col"

text \<open>Input validation of scikit-learn: an array holding a not-a-number or an infinity
  is refused, then an empty array.\<close>

fun num_of :: "entry \<Rightarrow> real option" where
  "num_of (Num r) = Some r"
| "num_of Null = None"
| "num_of NotANumber = None"
| "num_of (Infinite b) = None"

definition check_array :: "entry list \<Rightarrow> exn + real list" where
  "check_array a =
     (if list_ex (\<lambda>c. num_of c = None) a
      then Inl (ValueError ''Input contains NaN or infinity'')
      else if a = [] then Inl (ValueError ''Found array with 0 sample(s)'')
      else Inr (List.map_filter num_of a))"

text \<open>
  \<open>LinearRegression().fit(x, y)\<close>: both arrays are validated, their lengths compared, and
  the least-squares problem is handed to the solver (\<open>lstsq\<close> on the centred columns, in
  double precision). The solver is a parameter: its rounding is not modelled.
\<close>

type_synonym solver = "real list \<Rightarrow> real list \<Rightarrow> lin_model"

definition fit :: "solver \<Rightarrow> entry list \<Rightarrow> entry list \<Rightarrow> exn + lin_model" where
  "fit lstsq x y =
     (case check_array x of
        Inl e \<Rightarrow> Inl e
      | Inr xs \<Rightarrow>
          (case check_array y of
             Inl e \<Rightarrow> Inl e
           | Inr ys \<Rightarrow>
               if length xs \<noteq> length ys
               then Inl (ValueError ''Found input variables with inconsistent numbers of samples'')
               else Inr (lstsq xs ys)))"

text \<open>\<open>model.predict(x)\<close> on validated numbers, and on an array as the notebook passes
  it. Predictions and scores are computed here in exact arithmetic; the library rounds
  each operation to double precision.\<close>

definition predict :: "estimator \<Rightarrow> real list \<Rightarrow> exn + real list" where
  "predict est xs =
     (case est of
        None \<Rightarrow> Inl (NotFittedError ''This LinearRegression instance is not fitted yet'')
      | Some m \<Rightarrow>
          if xs = [] then Inl (ValueError ''Found array with 0 sample(s)'')
          else Inr (map (\<lambda>x. coef m * x + intercept m) xs))"

definition predict_array :: "estimator \<Rightarrow> entry list \<Rightarrow> exn + real list" where
  "predict_array est x =
     (case est of
        None \<Rightarrow> Inl (NotFittedError ''This LinearRegression instance is not fitted yet'')
      | Some m \<Rightarrow>
          (case check_array x of
             Inl e \<Rightarrow> Inl e
           | Inr xs \<Rightarrow> predict est xs))"

text \<open>
  \<open>r2_score(y_true, y_pred)\<close> with its defaults: the lengths are checked, an empty
  array is refused, fewer than two samples give \<open>nan\<close> (with a warning), and otherwise
  the score is one minus residual sum of squares over total sum of squares, with the
  \<open>force_finite\<close> replacements where the total sum of squares is zero.
\<close>

datatype r2 = NaN | R2 real

definition ss_res :: "real list \<Rightarrow> real list \<Rightarrow> real" where
  "ss_res y_true y_pred = (\<Sum>(t, p)\<leftarrow>zip y_true y_pred. (t - p)\<^sup>2)"

definition ss_tot :: "real list \<Rightarrow> real" where
  "ss_tot y_true = (\<Sum>t\<leftarrow>y_true. (t - mean y_true)\<^sup>2)"

definition r2_score :: "real list \<Rightarrow> real list \<Rightarrow> exn + r2" where
  "r2_score y_true y_pred =
     (if length y_true \<noteq> length y_pred
      then Inl (ValueError ''Found input variables with inconsistent numbers of samples'')
      else if y_true = [] then Inl (ValueError ''Found array with 0 sample(s)'')
      else if length y_pred < 2 then Inr NaN
      else
        let numerator = ss_res y_true y_pred;
            denominator = ss_tot y_true
        in Inr (R2 (if denominator \<noteq> 0 \<and> numerator \<noteq> 0 then 1 - numerator / denominator
                    else if numerator \<noteq> 0 \<and> denominator = 0 then 0
                    else 1)))"

text \<open>\<open>r2_score\<close> on the observed column as the notebook passes it.\<close>

definition r2_score_array :: "entry list \<Rightarrow> real list \<Rightarrow> exn + r2" where
  "r2_score_array y_true y_pred =
     (if length y_true \<noteq> length y_pred
      then Inl (ValueError ''Found input variables with inconsistent numbers of samples'')
      else case check_array y_true of
             Inl e \<Rightarrow> Inl e
           | Inr ys \<Rightarrow> r2_score ys y_pred)"

text \<open>The scoring idiom of the notebook on data whose entries are all finite numbers: take
  the two columns, predict from the first, and score the predictions against the second.\<close>

definition score :: "estimator \<Rightarrow> dataset \<Rightarrow> exn + r2" where
  "score est df =
     (case predict est (map fst df) of
        Inl e \<Rightarrow> Inl e
      | Inr y_pred \<Rightarrow> r2_score (map snd df) y_pred)"

section \<open>Byte buffers and pickle\<close>

type_synonym byte = "8 word"

record bytesio =
  content :: "byte list"
  pos :: nat

definition BytesIO :: bytesio where
  "BytesIO = \<lparr>content = [], pos = 0\<rparr>"

definition bio_write :: "byte list \<Rightarrow> bytesio \<Rightarrow> bytesio" where
  "bio_write b f =
     (let c = content f; p = pos f
      in f\<lparr>content := take p c @ replicate (p - length c) 0 @ b @ drop (p + length b) c,
           pos := p + length b\<rparr>)"

definition bio_seek :: "nat \<Rightarrow> bytesio \<Rightarrow> bytesio" where
  "bio_seek p f = f\<lparr>pos := p\<rparr>"

definition bio_read :: "bytesio \<Rightarrow> byte list \<times> bytesio" where
  "bio_read f = (drop (pos f) (content f), f\<lparr>pos := max (pos f) (length (content f))\<rparr>)"

text \<open>The pickle format is a parameter: \<open>dumps\<close> serialises an estimator, \<open>loads\<close>
  parses bytes back or raises.\<close>

record pickle_codec =
  dumps :: "estimator \<Rightarrow> byte list"
  loads :: "byte list \<Rightarrow> exn + estimator"

definition pickle_dump :: "pickle_codec \<Rightarrow> estimator \<Rightarrow> bytesio \<Rightarrow> bytesio" where
  "pickle_dump pk obj f = bio_write (dumps pk obj) f"

definition pickle_load :: "pickle_codec \<Rightarrow> bytesio \<Rightarrow> (exn + estimator) \<times> bytesio" where
  "pickle_load pk f = (case bio_read f of (bs, f') \<Rightarrow> (loads pk bs, f'))"


section \<open>The object store and the state of a run\<close>

text \<open>
  One bucket: \<open>store\<close> maps a key to the bytes of its object, \<open>tables\<close> maps a location
  to the Parquet data found there. \<open>faults\<close> is the outcome of the requests still to
  come: \<open>None\<close> for a request that is served, \<open>Some e\<close> for one that raises \<open>e\<close>; an
  exhausted list serves every request. \<open>trace\<close> records the requests made, \<open>stdout\<close>
  the printed lines.
\<close>

datatype s3_call =
    DeleteObject string
  | UploadFileobj string
  | DownloadFileobj string
  | ReadParquet string

datatype piece = S string | F real | R r2

record world =
  store :: "string \<rightharpoonup> byte list"
  tables :: "string \<rightharpoonup> frame"
  faults :: "exn option list"
  trace :: "s3_call list"
  stdout :: "piece list list"

definition request :: "s3_call \<Rightarrow> 'a world_scheme \<Rightarrow> exn option \<times> 'a world_scheme" where
  "request c w =
     (let w' = w\<lparr>trace := trace w @ [c]\<rparr>
      in case faults w' of
           [] \<Rightarrow> (None, w')
         | outcome # later \<Rightarrow> (outcome, w'\<lparr>faults := later\<rparr>))"

definition delete_object :: "string \<Rightarrow> 'a world_scheme \<Rightarrow> exn option \<times> 'a world_scheme" where
  "delete_object key w =
     (case request (DeleteObject key) w of
        (Some e, w') \<Rightarrow> (Some e, w')
      | (None, w') \<Rightarrow> (None, w'\<lparr>store := (store w')(key := None)\<rparr>))"

text \<open>\<open>upload_fileobj\<close> sends what the file object holds from its current position on.\<close>

definition upload_fileobj ::
  "bytesio \<Rightarrow> string \<Rightarrow> 'a world_scheme \<Rightarrow> (exn option \<times> bytesio) \<times> 'a world_scheme" where
  "upload_fileobj f key w =
     (case request (UploadFileobj key) w of
        (Some e, w') \<Rightarrow> ((Some e, f), w')
      | (None, w') \<Rightarrow>
          (case bio_read f of
             (bs, f') \<Rightarrow> ((None, f'), w'\<lparr>store := (store w')(key \<mapsto> bs)\<rparr>)))"

definition download_fileobj ::
  "string \<Rightarrow> bytesio \<Rightarrow> 'a world_scheme \<Rightarrow> (exn option \<times> bytesio) \<times> 'a world_scheme" where
  "download_fileobj key f w =
     (case request (DownloadFileobj key) w of
        (Some e, w') \<Rightarrow> ((Some e, f), w')
      | (None, w') \<Rightarrow>
          (case store w' key of
             None \<Rightarrow> ((Some (ClientError ''An error occurred (404): Not Found''), f), w')
           | Some bs \<Rightarrow> ((None, bio_write bs f), w')))"

definition read_parquet :: "string \<Rightarrow> 'a world_scheme \<Rightarrow> (exn + frame) \<times> 'a world_scheme" where
  "read_parquet location w =
     (case request (ReadParquet location) w of
        (Some e, w') \<Rightarrow> (Inl e, w')
      | (None, w') \<Rightarrow>
          (case tables w' location of
             None \<Rightarrow> (Inl (OSError ''No such file or directory''), w')
           | Some df \<Rightarrow> (Inr df, w')))"

definition print :: "piece list \<Rightarrow> 'a world_scheme \<Rightarrow> exn option \<times> 'a world_scheme" where
  "print line w = (None, w\<lparr>stdout := stdout w @ [line]\<rparr>)"

text \<open>Statement sequencing and \<open>try: ... except Exception as e: ...\<close>. Every
  constructor of \<open>exn\<close> is an \<open>Exception\<close>, so the handler takes them all.\<close>

definition seq ::
  "('s \<Rightarrow> exn option \<times> 's) \<Rightarrow> ('s \<Rightarrow> exn option \<times> 's) \<Rightarrow> 's \<Rightarrow> exn option \<times> 's" where
  "seq a b s = (case a s of (Some e, s') \<Rightarrow> (Some e, s') | (None, s') \<Rightarrow> b s')"

definition try_except ::
  "('s \<Rightarrow> exn option \<times> 's) \<Rightarrow> (exn \<Rightarrow> 's \<Rightarrow> exn option \<times> 's) \<Rightarrow> 's \<Rightarrow> exn option \<times> 's" where
  "try_except body handler s =
     (case body s of (Some e, s') \<Rightarrow> handler e s' | (None, s') \<Rightarrow> (None, s'))"

definition BUCKET :: string where
  "BUCKET = ''sfc-mt-sagemaker-demo''"

definition DATA1 :: string where
  "DATA1 = ''s3://'' @ BUCKET @ ''/data1/''"

definition DATA2 :: string where
  "DATA2 = ''s3://'' @ BUCKET @ ''/data2/''"

text \<open>The variables of the notebook, on top of the world. The variable \<open>intercept\<close>
  of the notebook is the field \<open>intercept_var\<close>, the name being taken by the model's
  parameter.\<close>

record nb = world +
  df1 :: frame
  df_train1 :: frame
  df_test1 :: frame
  x1 :: "entry list"
  y1 :: "entry list"
  model1 :: estimator
  y_pred1 :: "real list"
  r2_1 :: r2
  x_test1 :: "entry list"
  y_test1 :: "entry list"
  y_test_pred1 :: "real list"
  r2_test1 :: r2
  slope :: real
  intercept_var :: real
  buffer :: bytesio
  download :: bytesio
  loaded_model :: estimator
  df2 :: frame
  x2 :: "entry list"
  y2 :: "entry list"
  y_pred2 :: "real list"
  r2_loaded :: r2
  df_train2 :: frame
  df_test2 :: frame
  model2 :: estimator
  r2_2 :: r2
  x_test2 :: "entry list"
  y_test2 :: "entry list"
  y_test_pred2 :: "real list"
  r2_test2 :: r2


section \<open>The code cells\<close>

text \<open>
  A cell takes the state of the run and returns the exception it raised, if any, with
  the state it left behind. The cells that install packages, import modules and draw
  plots leave the modelled state alone and are omitted.
\<close>

type_synonym cell = "nb \<Rightarrow> exn option \<times> nb"

definition V1_KEY :: string where
  "V1_KEY = ''params/v1/params.pkl''"

definition V2_KEY :: string where
  "V2_KEY = ''params/v2/params.pkl''"

text \<open>Setting up the client and deleting the parameters of any previous run.\<close>

definition cell8 :: cell where
  "cell8 =
     try_except
       (seq (delete_object V1_KEY) (delete_object V2_KEY))
       (\<lambda>e. seq (print [S (str_exn e)]) (print [S ''Deletion failed, possibly no files'']))"

definition cell10 :: cell where
  "cell10 s =
     (case read_parquet DATA1 s of
        (Inl e, s') \<Rightarrow> (Some e, s')
      | (Inr df, s') \<Rightarrow> (None, s'\<lparr>df1 := df\<rparr>))"

definition cell12 :: "sampler \<Rightarrow> cell" where
  "cell12 rng s =
     (case split rng (df1 s) TRAIN_FRAC 55 of
        Inl e \<Rightarrow> (Some e, s)
      | Inr (tr, te) \<Rightarrow> (None, s\<lparr>df_train1 := tr, df_test1 := te\<rparr>))"

definition cell14 :: "solver \<Rightarrow> cell" where
  "cell14 lstsq s =
     (let s1 = s\<lparr>x1 := to_numpy (map fst (df_train1 s)),
                 y1 := to_numpy (map snd (df_train1 s)),
                 model1 := None\<rparr>
      in case fit lstsq (x1 s1) (y1 s1) of
           Inl e \<Rightarrow> (Some e, s1)
         | Inr m \<Rightarrow>
             let s2 = s1\<lparr>model1 := Some m\<rparr>
             in (case predict_array (model1 s2) (x1 s2) of
                   Inl e \<Rightarrow> (Some e, s2)
                 | Inr p \<Rightarrow> (None, s2\<lparr>y_pred1 := p\<rparr>)))"

definition cell19 :: cell where
  "cell19 s =
     (case r2_score_array (y1 s) (y_pred1 s) of
        Inl e \<Rightarrow> (Some e, s)
      | Inr r \<Rightarrow> print [S ''The model has an R2 score '', R r] (s\<lparr>r2_1 := r\<rparr>))"

definition cell22 :: cell where
  "cell22 s =
     (let s1 = s\<lparr>x_test1 := to_numpy (map fst (df_test1 s)),
                 y_test1 := to_numpy (map snd (df_test1 s))\<rparr>
      in case predict_array (model1 s1) (x_test1 s1) of
           Inl e \<Rightarrow> (Some e, s1)
         | Inr p \<Rightarrow>
             let s2 = s1\<lparr>y_test_pred1 := p\<rparr>
             in (case r2_score_array (y_test1 s2) (y_test_pred1 s2) of
                   Inl e \<Rightarrow> (Some e, s2)
                 | Inr r \<Rightarrow>
                     print [S ''The model scores '', R r, S '' on test data'']
                       (s2\<lparr>r2_test1 := r\<rparr>)))"

definition cell24 :: cell where
  "cell24 s =
     (case model1 s of
        None \<Rightarrow> (Some (AttributeError ''LinearRegression object has no attribute coef_''), s)
      | Some m \<Rightarrow>
          print [S ''The model slope is '', F (coef m), S '', and the intercept is '',
                 F (intercept m)]
            (s\<lparr>slope := coef m, intercept_var := intercept m\<rparr>))"

text \<open>Saving: a fresh buffer, \<open>pickle.dump\<close>, \<open>seek(0)\<close>, \<open>upload_fileobj\<close>.\<close>

definition save_model :: "pickle_codec \<Rightarrow> string \<Rightarrow> estimator \<Rightarrow> cell" where
  "save_model pk key est s =
     (let s1 = s\<lparr>buffer := BytesIO\<rparr>;
          s2 = s1\<lparr>buffer := pickle_dump pk est (buffer s1)\<rparr>;
          s3 = s2\<lparr>buffer := bio_seek 0 (buffer s2)\<rparr>
      in case upload_fileobj (buffer s3) key s3 of
           ((r, f), s4) \<Rightarrow> (r, s4\<lparr>buffer := f\<rparr>))"

definition cell26 :: "pickle_codec \<Rightarrow> cell" where
  "cell26 pk s = save_model pk V1_KEY (model1 s) s"

text \<open>Loading: a fresh buffer, \<open>download_fileobj\<close>, \<open>seek(0)\<close>, \<open>pickle.load\<close>.\<close>

definition load_model :: "pickle_codec \<Rightarrow> string \<Rightarrow> nb \<Rightarrow> (exn + estimator) \<times> nb" where
  "load_model pk key s =
     (let s1 = s\<lparr>download := BytesIO\<rparr>
      in case download_fileobj key (download s1) s1 of
           ((Some e, f), s2) \<Rightarrow> (Inl e, s2\<lparr>download := f\<rparr>)
         | ((None, f), s2) \<Rightarrow>
             let s3 = s2\<lparr>download := bio_seek 0 f\<rparr>
             in (case pickle_load pk (download s3) of
                   (r, f') \<Rightarrow> (r, s3\<lparr>download := f'\<rparr>)))"

definition cell29 :: "pickle_codec \<Rightarrow> cell" where
  "cell29 pk s =
     (case load_model pk V1_KEY s of
        (Inl e, s') \<Rightarrow> (Some e, s')
      | (Inr est, s') \<Rightarrow>
          let s'' = s'\<lparr>loaded_model := est\<rparr>
          in (case est of
                None \<Rightarrow>
                  (Some (AttributeError ''LinearRegression object has no attribute coef_''), s'')
              | Some m \<Rightarrow> (None, s'')))"

definition cell31 :: cell where
  "cell31 s =
     (case read_parquet DATA2 s of
        (Inl e, s') \<Rightarrow> (Some e, s')
      | (Inr df, s') \<Rightarrow> (None, s'\<lparr>df2 := df\<rparr>))"

definition cell33 :: cell where
  "cell33 s =
     (let s1 = s\<lparr>x2 := to_numpy (map fst (df2 s)), y2 := to_numpy (map snd (df2 s))\<rparr>
      in case predict_array (loaded_model s1) (x2 s1) of
           Inl e \<Rightarrow> (Some e, s1)
         | Inr p \<Rightarrow>
             let s2 = s1\<lparr>y_pred2 := p\<rparr>
             in (case r2_score_array (y2 s2) (y_pred2 s2) of
                   Inl e \<Rightarrow> (Some e, s2)
                 | Inr r \<Rightarrow>
                     print [S ''The R2 of the new data is '', R r] (s2\<lparr>r2_loaded := r\<rparr>)))"

definition cell37 :: "sampler \<Rightarrow> cell" where
  "cell37 rng s =
     (case split rng (df2 s) TRAIN_FRAC 55 of
        Inl e \<Rightarrow> (Some e, s)
      | Inr (tr, te) \<Rightarrow> (None, s\<lparr>df_train2 := tr, df_test2 := te\<rparr>))"

definition cell39 :: "solver \<Rightarrow> cell" where
  "cell39 lstsq s =
     (let s1 = s\<lparr>x2 := to_numpy (map fst (df_train2 s)),
                 y2 := to_numpy (map snd (df_train2 s)),
                 model2 := None\<rparr>
      in case fit lstsq (x2 s1) (y2 s1) of
           Inl e \<Rightarrow> (Some e, s1)
         | Inr m \<Rightarrow>
             let s2 = s1\<lparr>model2 := Some m\<rparr>
             in (case predict_array (model2 s2) (x2 s2) of
                   Inl e \<Rightarrow> (Some e, s2)
                 | Inr p \<Rightarrow>
                     let s3 = s2\<lparr>y_pred2 := p\<rparr>
                     in (case r2_score_array (y2 s3) (y_pred2 s3) of
                           Inl e \<Rightarrow> (Some e, s3)
                         | Inr r \<Rightarrow>
                             print [S ''The new model has an R2 score '', R r]
                               (s3\<lparr>r2_2 := r\<rparr>))))"

definition cell43 :: cell where
  "cell43 s =
     (let s1 = s\<lparr>x_test2 := to_numpy (map fst (df_test2 s)),
                 y_test2 := to_numpy (map snd (df_test2 s))\<rparr>
      in case predict_array (model2 s1) (x_test2 s1) of
           Inl e \<Rightarrow> (Some e, s1)
         | Inr p \<Rightarrow>
             let s2 = s1\<lparr>y_test_pred2 := p\<rparr>
             in (case r2_score_array (y_test2 s2) (y_test_pred2 s2) of
                   Inl e \<Rightarrow> (Some e, s2)
                 | Inr r \<Rightarrow>
                     print [S ''The new model scores '', R r, S '' on test data'']
                       (s2\<lparr>r2_test2 := r\<rparr>)))"

definition cell44 :: cell where
  "cell44 s =
     (case model2 s of
        None \<Rightarrow> (Some (AttributeError ''LinearRegression object has no attribute coef_''), s)
      | Some m \<Rightarrow>
          print [S ''The new model slope is '', F (coef m), S '', and the intercept is '',
                 F (intercept m)]
            (s\<lparr>slope := coef m, intercept_var := intercept m\<rparr>))"

definition cell46 :: "pickle_codec \<Rightarrow> cell" where
  "cell46 pk s = save_model pk V2_KEY (model2 s) s"

text \<open>Running cells in order stops at the first exception.\<close>

fun run_cells :: "cell list \<Rightarrow> cell" where
  "run_cells [] s = (None, s)"
| "run_cells (c # cs) s =
     (case c s of (Some e, s') \<Rightarrow> (Some e, s') | (None, s') \<Rightarrow> run_cells cs s')"

definition first_model_cells :: "sampler \<Rightarrow> solver \<Rightarrow> pickle_codec \<Rightarrow> cell list" where
  "first_model_cells rng lstsq pk =
     [cell8, cell10, cell12 rng, cell14 lstsq, cell19, cell22, cell24, cell26 pk]"

definition new_data_cells :: "sampler \<Rightarrow> solver \<Rightarrow> pickle_codec \<Rightarrow> cell list" where
  "new_data_cells rng lstsq pk =
     [cell29 pk, cell31, cell33, cell37 rng, cell39 lstsq, cell43, cell44, cell46 pk]"

definition notebook :: "sampler \<Rightarrow> solver \<Rightarrow> pickle_codec \<Rightarrow> cell list" where
  "notebook rng lstsq pk = first_model_cells rng lstsq pk @ new_data_cells rng lstsq pk"

section \<open>Requests that change an object\<close>

fun writes_key :: "string \<Rightarrow> s3_call \<Rightarrow> bool" where
  "writes_key k (DeleteObject k') = (k = k')"
| "writes_key k (UploadFileobj k') = (k = k')"
| "writes_key k (DownloadFileobj k') = False"
| "writes_key k (ReadParquet k') = False"

text \<open>Between two states of a run the object at a key is untouched: it is the same
  object, the earlier requests are still the start of the trace, and none of the requests
  made since writes or deletes that key.\<close>

definition untouched :: "string \<Rightarrow> nb \<Rightarrow> nb \<Rightarrow> bool" where
  "untouched k s s' \<longleftrightarrow>
     store s' k = store s k
     \<and> take (length (trace s)) (trace s') = trace s
     \<and> list_all (\<lambda>c. \<not> writes_key k c) (drop (length (trace s)) (trace s'))"

section \<open>Concrete collaborators and inputs for evaluation\<close>

text \<open>A generator: the first \<open>n\<close> indices of the identity order rotated by the seed.\<close>

definition rot_sampler :: sampler where
  "rot_sampler s height n = take n (rotate s [0..<height])"

text \<open>A solver in exact arithmetic: the least-squares line through the centred columns,
  with coefficient 0 where the centred predictor is all zero.\<close>

definition exact_lstsq :: solver where
  "exact_lstsq xs ys =
     (let mx = mean xs;
          my = mean ys;
          sxx = (\<Sum>x\<leftarrow>xs. (x - mx)\<^sup>2);
          sxy = (\<Sum>(x, y)\<leftarrow>zip xs ys. (x - mx) * (y - my));
          c = (if sxx = 0 then 0 else sxy / sxx)
      in \<lparr>coef = c, intercept = my - c * mx\<rparr>)"

text \<open>A small pickle format: a tag byte, then the two parameters as one byte each. It
  reads back the unfitted estimator and the models whose parameters are whole numbers
  below 256.\<close>

definition byte_codec :: pickle_codec where
  "byte_codec =
     \<lparr>dumps = (\<lambda>est. case est of
                 None \<Rightarrow> [0]
               | Some m \<Rightarrow> [1, of_int \<lfloor>coef m\<rfloor>, of_int \<lfloor>intercept m\<rfloor>]),
      loads = (\<lambda>bs. case bs of
                 [t] \<Rightarrow> if t = 0 then Inr None
                        else Inl (UnpicklingError ''invalid load key'')
               | [t, a, b] \<Rightarrow>
                   if t = 1
                   then Inr (Some \<lparr>coef = real (unat a), intercept = real (unat b)\<rparr>)
                   else Inl (UnpicklingError ''invalid load key'')
               | _ \<Rightarrow> Inl (UnpicklingError ''pickle data was truncated''))\<rparr>"

text \<open>Two small data sets: sales that follow \<open>10 x + 5\<close>, and later sales that follow
  \<open>2 x + 1\<close>.\<close>

definition sales1 :: dataset where
  "sales1 = [(1, 15), (2, 25), (3, 35), (4, 45)]"

definition sales2 :: dataset where
  "sales2 = [(1, 3), (2, 5), (3, 7), (4, 9)]"


text \<open>The same observation recorded twice, and a frame with a missing temperature.\<close>

definition twice :: frame where
  "twice = [(Num 20, Num 100), (Num 20, Num 100)]"

definition with_null :: frame where
  "with_null = [(Num 20, Num 100), (Null, Num 150)]"

definition bucket_tables :: "string \<rightharpoonup> frame" where
  "bucket_tables = [DATA1 \<mapsto> frame_of sales1, DATA2 \<mapsto> frame_of sales2]"

text \<open>A kernel that has just started, with the given bucket contents and request
  outcomes; no variable has been assigned yet, each holds an empty value.\<close>

definition fresh :: "(string \<rightharpoonup> byte list) \<Rightarrow> (string \<rightharpoonup> frame) \<Rightarrow> exn option list \<Rightarrow> nb" where
  "fresh objs tbls outcomes =
     \<lparr>store = objs, tables = tbls, faults = outcomes, trace = [], stdout = [],
      df1 = [], df_train1 = [], df_test1 = [], x1 = [], y1 = [], model1 = None,
      y_pred1 = [], r2_1 = NaN, x_test1 = [], y_test1 = [], y_test_pred1 = [],
      r2_test1 = NaN, slope = 0, intercept_var = 0, buffer = BytesIO, download = BytesIO,
      loaded_model = None, df2 = [], x2 = [], y2 = [], y_pred2 = [], r2_loaded = NaN,
      df_train2 = [], df_test2 = [], model2 = None, r2_2 = NaN, x_test2 = [],
      y_test2 = [], y_test_pred2 = [], r2_test2 = NaN\<rparr>"

section \<open>Properties of double rounding\<close>

lemma pow2_nonpos: "i \<le> 0 \<Longrightarrow> pow2 i = 1 / 2 ^ nat (- i)"
  by (auto simp: pow2_def)

lemma round_half_even_int: "round_half_even (of_int n) = n"
  by (simp add: round_half_even_def)

lemma round_half_even_le:
  assumes "y \<le> of_int N"
  shows "round_half_even y \<le> N"
proof (cases "y = of_int N")
  case True
  then show ?thesis by (simp add: round_half_even_int)
next
  case False
  then have "y < of_int N" using assms by simp
  then have "\<lfloor>y\<rfloor> < N" by (simp add: floor_less_iff)
  then show ?thesis by (auto simp: round_half_even_def Let_def)
qed

lemma f64_exponent_le:
  assumes "0 < x" "x < 2 ^ 53"
  shows "f64_exponent x \<le> 52"
proof (cases "1 \<le> x")
  case True
  have "\<lfloor>x\<rfloor> < 2 ^ 53" using assms(2) by (simp add: floor_less_iff)
  then have "bitlen \<lfloor>x\<rfloor> \<le> 53" by (simp add: bitlen_le_iff_power)
  then show ?thesis using True by (simp add: f64_exponent_def)
next
  case False
  then have "1 < 1 / x" using assms(1) by simp
  then have "0 < \<lfloor>1 / x\<rfloor>" by linarith
  then have "bitlen \<lfloor>1 / x\<rfloor> \<noteq> 0" by (simp add: bitlen_eq_zero_iff)
  then have "1 \<le> bitlen \<lfloor>1 / x\<rfloor>" using bitlen_nonneg[of "\<lfloor>1 / x\<rfloor>"] by linarith
  then show ?thesis using False by (auto simp: f64_exponent_def Let_def)
qed

text \<open>Below \<open>2^53\<close> the doubles around a number are spaced by a negative power of two.\<close>

lemma f64_round_pos_eq:
  assumes "0 < x" "x < 2 ^ 53"
  shows "\<exists>j. f64_round_pos x = of_int (round_half_even (x * 2 ^ j)) / 2 ^ j"
proof -
  let ?e = "max (f64_exponent x) (- 1022)"
  have "?e - 52 \<le> 0" using f64_exponent_le[OF assms] by simp
  then have "pow2 (?e - 52) = 1 / 2 ^ nat (- (?e - 52))" by (rule pow2_nonpos)
  then have "f64_round_pos x
      = of_int (round_half_even (x * 2 ^ nat (- (?e - 52)))) / 2 ^ nat (- (?e - 52))"
    by (simp add: f64_round_pos_def Let_def)
  then show ?thesis by blast
qed

lemma f64_round_pos_le_nat:
  assumes "0 < x" "x \<le> real H" "H < 2 ^ 53"
  shows "f64_round_pos x \<le> real H"
proof -
  have "real H < 2 ^ 53" using assms(3) by (metis of_nat_less_iff of_nat_numeral of_nat_power)
  then have "x < 2 ^ 53" using assms(2) by simp
  then obtain j where j: "f64_round_pos x = of_int (round_half_even (x * 2 ^ j)) / 2 ^ j"
    using f64_round_pos_eq[OF assms(1)] by blast
  have "x * 2 ^ j \<le> real H * 2 ^ j" using assms(2) by simp
  also have "\<dots> = of_int (int H * 2 ^ j)" by simp
  finally have "round_half_even (x * 2 ^ j) \<le> int H * 2 ^ j" by (rule round_half_even_le)
  then have "real_of_int (round_half_even (x * 2 ^ j)) \<le> real_of_int (int H * 2 ^ j)"
    by (simp only: of_int_le_iff)
  then have "of_int (round_half_even (x * 2 ^ j)) / 2 ^ j \<le> real H"
    by (simp add: field_simps)
  then show ?thesis using j by simp
qed

lemma f64_round_nat:
  assumes "H < 2 ^ 53"
  shows "f64_round (real H) = real H"
proof (cases "H = 0")
  case True
  then show ?thesis by (simp add: f64_round_def)
next
  case False
  have lt: "real H < 2 ^ 53" using assms by (metis of_nat_less_iff of_nat_numeral of_nat_power)
  have pos: "0 < real H" using False by simp
  obtain j where j: "f64_round_pos (real H) = of_int (round_half_even (real H * 2 ^ j)) / 2 ^ j"
    using f64_round_pos_eq[OF pos lt] by blast
  have "real H * 2 ^ j = of_int (int H * 2 ^ j)" by simp
  then have "round_half_even (real H * 2 ^ j) = int H * 2 ^ j"
    by (simp only: round_half_even_int)
  then have "f64_round_pos (real H) = real H" using j by simp
  then show ?thesis using pos by (simp add: f64_round_def)
qed

lemma sample_size_le:
  assumes "0 \<le> fraction" "fraction \<le> 1" "height < 2 ^ 53"
  shows "sample_size height fraction \<le> height"
proof -
  let ?x = "real height * fraction"
  have x: "0 \<le> ?x" "?x \<le> real height" using assms(1,2) by (simp_all add: mult_left_le)
  have "f64_round ?x \<le> real height"
  proof (cases "?x = 0")
    case True
    then show ?thesis by (simp add: f64_round_def)
  next
    case False
    have pos: "0 < ?x" using x(1) False by (metis less_eq_real_def)
    have "f64_round_pos ?x \<le> real height" using pos x(2) assms(3) by (rule f64_round_pos_le_nat)
    moreover have "f64_round ?x = f64_round_pos ?x" using pos unfolding f64_round_def by auto
    ultimately show ?thesis by simp
  qed
  then have "\<lfloor>f64_round ?x\<rfloor> \<le> int height" by linarith
  then show ?thesis by (simp add: sample_size_def f64_round_nat[OF assms(3)])
qed

text \<open>The notebook's fraction on 90 rows draws 62 of them, the double product lying just
  below 63; a fraction just below four thirds on 3 rows asks for 4.\<close>

lemma sample_size_examples:
  "sample_size 90 TRAIN_FRAC = 62"
  "sample_size 3 (6004799503160661 / 4503599627370496) = 4"
  by code_simp+

section \<open>Properties of the split\<close>

text \<open>
  Claim C7, as amended. The split fails exactly when the requested sample size, the
  double product of height and fraction truncated to an unsigned integer, exceeds the
  height; the exception is then Polars' shape error. For every fraction from 0 to 1, both
  ends included, on a frame of fewer than \<open>2^53\<close> rows, it returns a pair of frames.
\<close>

theorem split_fails_iff_oversized:
  "(isl (split rng df fraction seed) \<longleftrightarrow> length df < sample_size (length df) fraction)
   \<and> (\<forall>e. split rng df fraction seed = Inl e \<longrightarrow>
          e = ShapeError ''cannot take a larger sample than the total population'')
   \<and> (0 \<le> fraction \<and> fraction \<le> 1 \<and> length df < 2 ^ 53 \<longrightarrow>
          \<not> isl (split rng df fraction seed))"
  using sample_size_le[of fraction "length df"]
  by (auto simp: split_def sample_def Let_def split: sum.splits)

theorem split_fails_iff_oversized_witness:
  "\<not> isl (split rot_sampler (frame_of sales1) TRAIN_FRAC 55)
   \<and> split rot_sampler (frame_of sales1) (3 / 2) 55
       = Inl (ShapeError ''cannot take a larger sample than the total population'')"
proof -
  have h: "0 \<le> TRAIN_FRAC \<and> TRAIN_FRAC \<le> 1 \<and> length (frame_of sales1) < 2 ^ 53"
    by (simp add: TRAIN_FRAC_def frame_of_def sales1_def)
  have big: "length (frame_of sales1) < sample_size (length (frame_of sales1)) (3 / 2)"
    by code_simp
  have a: "\<not> isl (split rot_sampler (frame_of sales1) TRAIN_FRAC 55)"
    using split_fails_iff_oversized[of rot_sampler "frame_of sales1" TRAIN_FRAC 55] h by blast
  have "isl (split rot_sampler (frame_of sales1) (3 / 2) 55)"
    using split_fails_iff_oversized[of rot_sampler "frame_of sales1" "3 / 2" 55] big by blast
  then obtain e where e: "split rot_sampler (frame_of sales1) (3 / 2) 55 = Inl e"
    by (cases "split rot_sampler (frame_of sales1) (3 / 2) 55") auto
  then have "e = ShapeError ''cannot take a larger sample than the total population''"
    using split_fails_iff_oversized[of rot_sampler "frame_of sales1" "3 / 2" 55] by blast
  then show ?thesis using a e by simp
qed

text \<open>Claim C7 as stated fails at the fraction 1, which lies outside the open interval:
  the sample is the whole frame in shuffled order and nothing is raised.\<close>

theorem split_fraction_one_counterexample:
  "split rot_sampler (frame_of sales1) 1 55
     = Inr (frame_of [(4, 45), (1, 15), (2, 25), (3, 35)], [])"
  by code_simp

text \<open>On a frame without nulls the anti-join keeps the rows that equal no drawn row.\<close>

lemma anti_join_clean:
  assumes "list_all (\<lambda>r. fst r \<noteq> Null \<and> snd r \<noteq> Null) df"
  shows "anti_join df other = filter (\<lambda>r. r \<notin> set other) df"
  unfolding anti_join_def
proof (rule filter_cong[OF refl])
  fix r assume "r \<in> set df"
  then have "fst r \<noteq> Null \<and> snd r \<noteq> Null" using assms by (simp add: list_all_iff)
  then show "(\<not> list_ex (key_match r) other) = (r \<notin> set other)"
    by (auto simp: list_ex_iff key_match_def)
qed

lemma valid_sample_rows_subset:
  "valid_sample idxs (length df) n \<Longrightarrow> set (map (\<lambda>i. df ! i) idxs) \<subseteq> set df"
  by (auto simp: valid_sample_def list_all_iff)

lemma valid_sample_rows_distinct:
  "valid_sample idxs (length df) n \<Longrightarrow> distinct df \<Longrightarrow> distinct (map (\<lambda>i. df ! i) idxs)"
  by (auto simp: valid_sample_def list_all_iff distinct_map inj_on_def nth_eq_iff_index_eq)

text \<open>On a frame without nulls and without repeated rows, the two frames of a split
  share no row and together hold every input row exactly once.\<close>

lemma split_partitions_clean_frame:
  assumes "0 \<le> fraction" "fraction \<le> 1" "length df < 2 ^ 53"
    and "valid_sample (rng seed (length df) (sample_size (length df) fraction))
           (length df) (sample_size (length df) fraction)"
    and "distinct df"
    and "list_all (\<lambda>r. fst r \<noteq> Null \<and> snd r \<noteq> Null) df"
  shows "\<exists>tr te. split rng df fraction seed = Inr (tr, te)
           \<and> set tr \<inter> set te = {}
           \<and> mset tr + mset te = mset df"
proof -
  let ?n = "sample_size (length df) fraction"
  let ?tr = "map (\<lambda>i. df ! i) (rng seed (length df) ?n)"
  let ?te = "filter (\<lambda>r. r \<notin> set ?tr) df"
  have "?n \<le> length df" using assms(1-3) by (rule sample_size_le)
  then have eq: "split rng df fraction seed = Inr (?tr, ?te)"
    by (simp add: split_def sample_def Let_def anti_join_clean[OF assms(6)])
  have sub: "set ?tr \<subseteq> set df" using assms(4) by (rule valid_sample_rows_subset)
  have dtr: "distinct ?tr" using assms(4,5) by (rule valid_sample_rows_distinct)
  have "distinct (filter (\<lambda>r. r \<in> set ?tr) df)" using assms(5) by simp
  moreover have "set (filter (\<lambda>r. r \<in> set ?tr) df) = set ?tr" using sub by auto
  ultimately have "mset (filter (\<lambda>r. r \<in> set ?tr) df) = mset ?tr"
    using dtr set_eq_iff_mset_eq_distinct by blast
  moreover have "mset (filter (\<lambda>r. r \<in> set ?tr) df) + mset ?te = mset df"
    by (induction df) auto
  ultimately have "mset ?tr + mset ?te = mset df" by simp
  moreover have "set ?tr \<inter> set ?te = {}" by auto
  ultimately show ?thesis using eq by blast
qed

text \<open>
  Claim C1 asks that the two frames of a split share no row and together hold the input
  exactly, no row lost or repeated, also where rows repeat. The code does not keep this.
  Of two equal rows one is drawn and the anti-join then drops both: the split returns one
  row where the input had two. A drawn row that holds a null matches nothing in the
  anti-join, so it stays in the test frame as well.
\<close>

theorem split_loses_and_repeats_rows:
  "valid_sample (rot_sampler 55 (length twice) (sample_size (length twice) TRAIN_FRAC))
     (length twice) (sample_size (length twice) TRAIN_FRAC)
   \<and> split rot_sampler twice TRAIN_FRAC 55 = Inr ([(Num 20, Num 100)], [])
   \<and> split rot_sampler with_null TRAIN_FRAC 55
       = Inr ([(Null, Num 150)], [(Num 20, Num 100), (Null, Num 150)])"
  by code_simp

section \<open>Properties of fitting and scoring\<close>


lemma check_array_Num:
  "xs \<noteq> [] \<Longrightarrow> check_array (map Num xs) = Inr xs"
proof -
  assume ne: "xs \<noteq> []"
  have a: "\<not> list_ex (\<lambda>c. num_of c = None) (map Num ys)" for ys
    by (induction ys) auto
  have b: "List.map_filter num_of (map Num ys) = ys" for ys
    by (induction ys) auto
  show ?thesis using ne by (simp add: check_array_def a b)
qed



lemma column_fst: "to_numpy (map fst (frame_of df)) = map Num (map fst df)"
  by (induction df) (auto simp: to_numpy_def frame_of_def)

lemma column_snd: "to_numpy (map snd (frame_of df)) = map Num (map snd df)"
  by (induction df) (auto simp: to_numpy_def frame_of_def)

lemma fit_on_dataset:
  assumes "train \<noteq> []"
  shows "fit lstsq (to_numpy (map fst (frame_of train))) (to_numpy (map snd (frame_of train)))
     = Inr (lstsq (map fst train) (map snd train))"
proof -
  have x: "check_array (to_numpy (map fst (frame_of train))) = Inr (map fst train)"
    unfolding column_fst using assms by (intro check_array_Num) simp
  have y: "check_array (to_numpy (map snd (frame_of train))) = Inr (map snd train)"
    unfolding column_snd using assms by (intro check_array_Num) simp
  show ?thesis unfolding fit_def x y by simp
qed




lemma sum_list_sq_nonneg: "0 \<le> (\<Sum>p\<leftarrow>ps. (h p :: real)\<^sup>2)"
  by (induction ps) auto

lemma sum_list_sq_eq_0_iff: "(\<Sum>p\<leftarrow>ps. (h p :: real)\<^sup>2) = 0 \<longleftrightarrow> list_all (\<lambda>p. h p = 0) ps"
proof (induction ps)
  case Nil
  show ?case by simp
next
  case (Cons p ps)
  have "0 \<le> (h p)\<^sup>2" by simp
  moreover have "0 \<le> (\<Sum>p\<leftarrow>ps. (h p)\<^sup>2)" by (rule sum_list_sq_nonneg)
  ultimately have "(h p)\<^sup>2 + (\<Sum>p\<leftarrow>ps. (h p)\<^sup>2) = 0 \<longleftrightarrow> (h p)\<^sup>2 = 0 \<and> (\<Sum>p\<leftarrow>ps. (h p)\<^sup>2) = 0"
    by (rule add_nonneg_eq_0_iff)
  then show ?case using Cons.IH by simp
qed

lemma ss_res_predictions:
  "ss_res (map snd df) (map f (map fst df)) = (\<Sum>(x, y)\<leftarrow>df. (y - f x)\<^sup>2)"
  by (induction df) (auto simp: ss_res_def)

lemma ss_res_nonneg: "0 \<le> ss_res y_true y_pred"
proof -
  have "ss_res y_true y_pred = (\<Sum>p\<leftarrow>zip y_true y_pred. (fst p - snd p)\<^sup>2)"
    by (simp add: ss_res_def case_prod_unfold)
  then show ?thesis by (simp add: sum_list_sq_nonneg)
qed

lemma ss_tot_nonneg: "0 \<le> ss_tot y_true"
  by (simp add: ss_tot_def sum_list_sq_nonneg)

lemma ss_res_zero_iff:
  "ss_res (map snd df) (map f (map fst df)) = 0 \<longleftrightarrow> list_all (\<lambda>(x, y). y = f x) df"
proof -
  have "ss_res (map snd df) (map f (map fst df)) = (\<Sum>p\<leftarrow>df. (snd p - f (fst p))\<^sup>2)"
    unfolding ss_res_predictions by (simp add: case_prod_unfold)
  then show ?thesis
    by (simp add: sum_list_sq_eq_0_iff case_prod_unfold del: map_map)
qed

text \<open>
  Claim C2, as amended. For every training set of at least two rows of finite numbers,
  fitting succeeds and scoring the fitted model on that same training set yields a number
  that is at most 1, and that is 1 whenever every residual is zero. (On a training set of
  one row the score is \<open>nan\<close>.)
\<close>

theorem fit_then_score_at_most_one:
  assumes "2 \<le> length train"
  shows "\<exists>m r. fit lstsq (to_numpy (map fst (frame_of train))) (to_numpy (map snd (frame_of train)))
                 = Inr m
           \<and> score (Some m) train = Inr (R2 r)
           \<and> r \<le> 1
           \<and> (list_all (\<lambda>(x, y). y - (coef m * x + intercept m) = 0) train \<longrightarrow> r = 1)"
proof -
  from assms have ne: "train \<noteq> []" by auto
  define m where "m = lstsq (map fst train) (map snd train)"
  have m: "fit lstsq (to_numpy (map fst (frame_of train))) (to_numpy (map snd (frame_of train)))
             = Inr m"
    unfolding m_def using ne by (rule fit_on_dataset)
  let ?f = "\<lambda>x. coef m * x + intercept m"
  let ?num = "ss_res (map snd train) (map ?f (map fst train))"
  let ?den = "ss_tot (map snd train)"
  let ?r = "if ?den \<noteq> 0 \<and> ?num \<noteq> 0 then 1 - ?num / ?den else if ?num \<noteq> 0 \<and> ?den = 0 then 0 else 1"
  have sc: "score (Some m) train = Inr (R2 ?r)"
    using assms ne by (simp add: score_def predict_def r2_score_def Let_def)
  have n0: "0 \<le> ?num" by (rule ss_res_nonneg)
  have d0: "0 \<le> ?den" by (rule ss_tot_nonneg)
  have le: "?r \<le> 1" using n0 d0 by (auto simp: divide_nonneg_nonneg)
  have "list_all (\<lambda>(x, y). y = ?f x) train \<longrightarrow> ?num = 0" using ss_res_zero_iff by blast
  then have one: "list_all (\<lambda>(x, y). y - ?f x = 0) train \<longrightarrow> ?r = 1" by simp
  show ?thesis using m sc le one by blast
qed

theorem fit_then_score_at_most_one_witness:
  "2 \<le> length sales1
   \<and> list_all (\<lambda>(x, y). y - (10 * x + 5) = 0) sales1
   \<and> score (Some \<lparr>coef = 10, intercept = 5\<rparr>) sales1 = Inr (R2 1)"
proof -
  have h: "2 \<le> length sales1" by (simp add: sales1_def)
  have z: "list_all (\<lambda>(x, y). y - (10 * x + 5) = 0) sales1" by (simp add: sales1_def)
  have f: "fit exact_lstsq (to_numpy (map fst (frame_of sales1)))
             (to_numpy (map snd (frame_of sales1))) = Inr \<lparr>coef = 10, intercept = 5\<rparr>"
    by code_simp
  obtain m r where
    m: "fit exact_lstsq (to_numpy (map fst (frame_of sales1)))
          (to_numpy (map snd (frame_of sales1))) = Inr m"
    and sc: "score (Some m) sales1 = Inr (R2 r)"
    and one: "list_all (\<lambda>(x, y). y - (coef m * x + intercept m) = 0) sales1 \<longrightarrow> r = 1"
    using fit_then_score_at_most_one[OF h, of exact_lstsq] by blast
  have "m = \<lparr>coef = 10, intercept = 5\<rparr>" using m f by simp
  then show ?thesis using h z sc one by simp
qed

text \<open>Claim C2 as stated fails on a training set of one row: fitting succeeds, and the
  score of the fitted model on that row is \<open>nan\<close>, not a number up to 1.\<close>

theorem one_row_score_counterexample:
  "fit exact_lstsq (to_numpy (map fst (frame_of [(20, 100)])))
       (to_numpy (map snd (frame_of [(20, 100)])))
     = Inr \<lparr>coef = 0, intercept = 100\<rparr>
   \<and> score (Some \<lparr>coef = 0, intercept = 100\<rparr>) [(20, 100)] = Inr NaN"
  by code_simp





text \<open>The solver in exact arithmetic returns the least-squares line: no line has a
  smaller residual sum of squares.\<close>

lemma centred_sum_zero:
  assumes "vs \<noteq> []"
  shows "(\<Sum>v\<leftarrow>vs. v - mean vs) = 0"
proof -
  have "(\<Sum>v\<leftarrow>vs. v - mean vs) = sum_list vs - real (length vs) * mean vs"
    by (simp add: sum_list_subtractf sum_list_triv)
  also have "\<dots> = 0" using assms by (simp add: mean_def)
  finally show ?thesis .
qed

lemma sse_expand:
  fixes df :: dataset
  assumes "df \<noteq> []"
  defines "mx \<equiv> mean (map fst df)" and "my \<equiv> mean (map snd df)"
  shows "(\<Sum>p\<leftarrow>df. (snd p - (a * fst p + b))\<^sup>2) =
           (\<Sum>p\<leftarrow>df. (snd p - my)\<^sup>2)
           - 2 * a * (\<Sum>p\<leftarrow>df. (fst p - mx) * (snd p - my))
           + a\<^sup>2 * (\<Sum>p\<leftarrow>df. (fst p - mx)\<^sup>2)
           + real (length df) * (my - a * mx - b)\<^sup>2"
proof -
  define d where "d = my - a * mx - b"
  have ex0: "(\<Sum>p\<leftarrow>df. fst p - mx) = 0"
    using centred_sum_zero[of "map fst df"] assms(1) by (simp add: mx_def comp_def)
  have ey0: "(\<Sum>p\<leftarrow>df. snd p - my) = 0"
    using centred_sum_zero[of "map snd df"] assms(1) by (simp add: my_def comp_def)
  have "(\<Sum>p\<leftarrow>df. (snd p - (a * fst p + b))\<^sup>2) =
        (\<Sum>p\<leftarrow>df. ((snd p - my)\<^sup>2 + (- 2 * a) * ((fst p - mx) * (snd p - my))
                   + a\<^sup>2 * (fst p - mx)\<^sup>2 + d\<^sup>2)
                  + ((2 * d) * (snd p - my) + (- 2 * d * a) * (fst p - mx)))"
    by (rule arg_cong[where f = sum_list], rule map_cong)
       (simp_all add: d_def power2_eq_square algebra_simps)
  also have "\<dots> = (\<Sum>p\<leftarrow>df. (snd p - my)\<^sup>2) + (- 2 * a) * (\<Sum>p\<leftarrow>df. (fst p - mx) * (snd p - my))
                   + a\<^sup>2 * (\<Sum>p\<leftarrow>df. (fst p - mx)\<^sup>2) + real (length df) * d\<^sup>2
                  + ((2 * d) * (\<Sum>p\<leftarrow>df. snd p - my) + (- 2 * d * a) * (\<Sum>p\<leftarrow>df. fst p - mx))"
    by (simp only: sum_list_addf sum_list_const_mult sum_list_triv)
  finally show ?thesis by (simp add: ex0 ey0 d_def)
qed

lemma exact_lstsq_on_dataset:
  fixes df :: dataset
  shows "exact_lstsq (map fst df) (map snd df) =
    \<lparr>coef = (if ss_tot (map fst df) = 0 then 0
                 else (\<Sum>p\<leftarrow>df. (fst p - mean (map fst df)) * (snd p - mean (map snd df)))
                        / ss_tot (map fst df)),
         intercept = mean (map snd df)
            - (if ss_tot (map fst df) = 0 then 0
                 else (\<Sum>p\<leftarrow>df. (fst p - mean (map fst df)) * (snd p - mean (map snd df)))
                        / ss_tot (map fst df)) * mean (map fst df)\<rparr>"
  by (simp add: exact_lstsq_def Let_def ss_tot_def zip_map_fst_snd case_prod_unfold)

lemma ss_tot_fst: "ss_tot (map fst (df::dataset)) = (\<Sum>p\<leftarrow>df. (fst p - mean (map fst df))\<^sup>2)"
  by (simp add: ss_tot_def comp_def)

lemma exact_lstsq_least_squares:
  fixes df :: dataset
  assumes "df \<noteq> []" and "m = exact_lstsq (map fst df) (map snd df)"
  shows "ss_res (map snd df) (map (\<lambda>x. coef m * x + intercept m) (map fst df))
           \<le> ss_res (map snd df) (map (\<lambda>x. a * x + b) (map fst df))"
proof -
  have ne: "df \<noteq> []" using assms(1) .
  define mx where "mx = mean (map fst df)"
  define my where "my = mean (map snd df)"
  define sxx where "sxx = (\<Sum>p\<leftarrow>df. (fst p - mx)\<^sup>2)"
  define sxy where "sxy = (\<Sum>p\<leftarrow>df. (fst p - mx) * (snd p - my))"
  define syy where "syy = (\<Sum>p\<leftarrow>df. (snd p - my)\<^sup>2)"
  define c where "c = (if sxx = 0 then 0 else sxy / sxx)"
  have m: "coef m = c" "intercept m = my - c * mx"
    using assms(2) exact_lstsq_on_dataset[of df]
    by (auto simp: c_def sxx_def sxy_def mx_def my_def ss_tot_fst)
  have Q: "(\<Sum>p\<leftarrow>df. (snd p - (a' * fst p + b'))\<^sup>2) =
             syy - 2 * a' * sxy + a'\<^sup>2 * sxx + real (length df) * (my - a' * mx - b')\<^sup>2" for a' b'
    using sse_expand[OF ne, of a' b'] by (simp add: syy_def sxy_def sxx_def mx_def my_def)
  have sxx0: "0 \<le> sxx" unfolding sxx_def by (rule sum_list_sq_nonneg)
  have key: "sxy = c * sxx"
  proof (cases "sxx = 0")
    case True
    then have "list_all (\<lambda>p. fst p - mx = 0) df"
      unfolding sxx_def by (simp add: sum_list_sq_eq_0_iff)
    then have "sxy = (\<Sum>p\<leftarrow>df. 0)"
      unfolding sxy_def by (intro arg_cong[where f = sum_list] map_cong) (auto simp: list_all_iff)
    then show ?thesis using True by simp
  next
    case False
    then show ?thesis by (simp add: c_def)
  qed
  have "(\<Sum>p\<leftarrow>df. (snd p - (a * fst p + b))\<^sup>2) - (\<Sum>p\<leftarrow>df. (snd p - (c * fst p + (my - c * mx)))\<^sup>2)
          = sxx * (a - c)\<^sup>2 + real (length df) * (my - a * mx - b)\<^sup>2"
    unfolding Q key by (simp add: power2_eq_square algebra_simps)
  moreover have "0 \<le> sxx * (a - c)\<^sup>2 + real (length df) * (my - a * mx - b)\<^sup>2"
    using sxx0 by simp
  ultimately have "(\<Sum>p\<leftarrow>df. (snd p - (c * fst p + (my - c * mx)))\<^sup>2) \<le> (\<Sum>p\<leftarrow>df. (snd p - (a * fst p + b))\<^sup>2)"
    by linarith
  then show ?thesis
    unfolding ss_res_predictions m by (simp add: case_prod_unfold)
qed

section \<open>Properties of saving and loading\<close>

text \<open>A served save leaves the pickled bytes under the key; a served load parses the
  bytes found under the key, whatever the buffers held before.\<close>

lemma save_model_stores:
  assumes "list_all (\<lambda>outcome. outcome = None) (take 1 (faults s))"
  shows "fst (save_model pk key est s) = None
       \<and> store (snd (save_model pk key est s)) key = Some (dumps pk est)"
  using assms
  by (cases "faults s")
     (simp_all add: save_model_def upload_fileobj_def request_def pickle_dump_def bio_write_def
        bio_read_def bio_seek_def BytesIO_def Let_def)

lemma save_model_raises:
  "faults s = Some e # later \<Longrightarrow> fst (save_model pk key est s) = Some e"
  by (simp add: save_model_def upload_fileobj_def request_def Let_def)

lemma load_model_raises:
  "faults s = Some e # later \<Longrightarrow> fst (load_model pk key s) = Inl e"
  "list_all (\<lambda>outcome. outcome = None) (take 1 (faults s)) \<Longrightarrow> store s key = None
     \<Longrightarrow> \<exists>msg. fst (load_model pk key s) = Inl (ClientError msg)"
  "list_all (\<lambda>outcome. outcome = None) (take 1 (faults s)) \<Longrightarrow> store s key = Some bs
     \<Longrightarrow> fst (load_model pk key s) = loads pk bs"
  by (cases "faults s";
      simp add: load_model_def download_fileobj_def request_def pickle_load_def bio_write_def
        bio_read_def bio_seek_def BytesIO_def Let_def)+

section \<open>Properties of the run\<close>

lemma run_cells_append:
  "run_cells (cs @ ds) s =
     (case run_cells cs s of (Some e, s') \<Rightarrow> (Some e, s') | (None, s') \<Rightarrow> run_cells ds s')"
  by (induction cs arbitrary: s) (auto split: prod.splits option.splits)

lemma run_cells_propagate:
  "run_cells pre s0 = (None, s1) \<Longrightarrow> c s1 = (Some e, s2) \<Longrightarrow>
   run_cells (pre @ c # post) s0 = (Some e, s2)"
  by (simp add: run_cells_append)

lemma cell8_total: "fst (cell8 s) = None"
  by (auto simp: cell8_def try_except_def seq_def print_def split: prod.splits option.splits)

lemma cell8_logs:
  "seq (delete_object V1_KEY) (delete_object V2_KEY) s = (Some e, s1) \<Longrightarrow>
   cell8 s = (None, s1\<lparr>stdout := stdout s1 @ [[S (str_exn e)], [S ''Deletion failed, possibly no files'']]\<rparr>)"
  by (simp add: cell8_def try_except_def seq_def print_def)

lemma delete_object_stdout: "stdout (snd (delete_object k s)) = stdout s"
  by (auto simp: delete_object_def request_def Let_def split: prod.splits option.splits list.splits)

text \<open>What each cell after the clean-up raises.\<close>

lemma cell10_raises:
  "read_parquet DATA1 s = (Inl e, s') \<Longrightarrow> cell10 s = (Some e, s')"
  by (simp add: cell10_def)

lemma cell12_raises:
  "split rng (df1 s) TRAIN_FRAC 55 = Inl e \<Longrightarrow> cell12 rng s = (Some e, s)"
  by (simp add: cell12_def)

lemma cell14_raises:
  "fit lstsq (to_numpy (map fst (df_train1 s))) (to_numpy (map snd (df_train1 s))) = Inl e
     \<Longrightarrow> fst (cell14 lstsq s) = Some e"
  "fit lstsq (to_numpy (map fst (df_train1 s))) (to_numpy (map snd (df_train1 s))) = Inr m
     \<Longrightarrow> predict_array (Some m) (to_numpy (map fst (df_train1 s))) = Inl e
     \<Longrightarrow> fst (cell14 lstsq s) = Some e"
  by (simp_all add: cell14_def Let_def)

lemma cell19_raises:
  "r2_score_array (y1 s) (y_pred1 s) = Inl e \<Longrightarrow> cell19 s = (Some e, s)"
  by (simp add: cell19_def)

lemma cell22_raises:
  "predict_array (model1 s) (to_numpy (map fst (df_test1 s))) = Inl e
     \<Longrightarrow> fst (cell22 s) = Some e"
  "predict_array (model1 s) (to_numpy (map fst (df_test1 s))) = Inr p
     \<Longrightarrow> r2_score_array (to_numpy (map snd (df_test1 s))) p = Inl e
     \<Longrightarrow> fst (cell22 s) = Some e"
  by (simp_all add: cell22_def Let_def)

lemma cell24_raises:
  "model1 s = None \<Longrightarrow> \<exists>msg. cell24 s = (Some (AttributeError msg), s)"
  by (simp add: cell24_def)

lemma cell29_raises:
  "fst (load_model pk V1_KEY s) = Inl e \<Longrightarrow> fst (cell29 pk s) = Some e"
  "fst (load_model pk V1_KEY s) = Inr None \<Longrightarrow> \<exists>msg. fst (cell29 pk s) = Some (AttributeError msg)"
  by (auto simp: cell29_def Let_def split: prod.splits sum.splits option.splits)

lemma cell31_raises:
  "read_parquet DATA2 s = (Inl e, s') \<Longrightarrow> cell31 s = (Some e, s')"
  by (simp add: cell31_def)

lemma cell33_raises:
  "predict_array (loaded_model s) (to_numpy (map fst (df2 s))) = Inl e
     \<Longrightarrow> fst (cell33 s) = Some e"
  "predict_array (loaded_model s) (to_numpy (map fst (df2 s))) = Inr p
     \<Longrightarrow> r2_score_array (to_numpy (map snd (df2 s))) p = Inl e
     \<Longrightarrow> fst (cell33 s) = Some e"
  by (simp_all add: cell33_def Let_def)

lemma cell37_raises:
  "split rng (df2 s) TRAIN_FRAC 55 = Inl e \<Longrightarrow> cell37 rng s = (Some e, s)"
  by (simp add: cell37_def)

lemma cell39_raises:
  "fit lstsq (to_numpy (map fst (df_train2 s))) (to_numpy (map snd (df_train2 s))) = Inl e
     \<Longrightarrow> fst (cell39 lstsq s) = Some e"
  "fit lstsq (to_numpy (map fst (df_train2 s))) (to_numpy (map snd (df_train2 s))) = Inr m
     \<Longrightarrow> predict_array (Some m) (to_numpy (map fst (df_train2 s))) = Inl e
     \<Longrightarrow> fst (cell39 lstsq s) = Some e"
  "fit lstsq (to_numpy (map fst (df_train2 s))) (to_numpy (map snd (df_train2 s))) = Inr m
     \<Longrightarrow> predict_array (Some m) (to_numpy (map fst (df_train2 s))) = Inr p
     \<Longrightarrow> r2_score_array (to_numpy (map snd (df_train2 s))) p = Inl e
     \<Longrightarrow> fst (cell39 lstsq s) = Some e"
  by (simp_all add: cell39_def Let_def)

lemma cell43_raises:
  "predict_array (model2 s) (to_numpy (map fst (df_test2 s))) = Inl e
     \<Longrightarrow> fst (cell43 s) = Some e"
  "predict_array (model2 s) (to_numpy (map fst (df_test2 s))) = Inr p
     \<Longrightarrow> r2_score_array (to_numpy (map snd (df_test2 s))) p = Inl e
     \<Longrightarrow> fst (cell43 s) = Some e"
  by (simp_all add: cell43_def Let_def)

lemma cell44_raises:
  "model2 s = None \<Longrightarrow> \<exists>msg. cell44 s = (Some (AttributeError msg), s)"
  by (simp add: cell44_def)

text \<open>
  Claim C8. The clean-up cell never raises: whatever the outcome of its delete requests,
  it completes, and when a delete raised it has printed the exception and the message
  that deletion failed; the run then goes on with the next cell. Every other cell is
  unguarded: whatever one of its calls raises (reading a data set, sampling, fitting,
  predicting, scoring, reading a parameter of an unfitted model, uploading, downloading,
  unpickling), the cell raises, and the exception of the first cell that raises is the
  exception of the run, which stops there.
\<close>

theorem errors_propagate_except_cleanup:
  "fst (cell8 s) = None
   \<and> (\<forall>d. fst (seq (delete_object V1_KEY) (delete_object V2_KEY) s) = Some d \<longrightarrow>
          stdout (snd (cell8 s))
            = stdout s @ [[S (str_exn d)], [S ''Deletion failed, possibly no files'']])
   \<and> run_cells (cell8 # cs) s = run_cells cs (snd (cell8 s))
   \<and> (notebook rng lstsq pk = pre @ c # post \<and> run_cells pre s0 = (None, s1)
        \<and> c s1 = (Some e', s2)
        \<longrightarrow> run_cells (notebook rng lstsq pk) s0 = (Some e', s2))
   \<and> (read_parquet DATA1 s = (Inl e, s') \<longrightarrow> cell10 s = (Some e, s'))
   \<and> (split rng (df1 s) TRAIN_FRAC 55 = Inl e \<longrightarrow> cell12 rng s = (Some e, s))
   \<and> (fit lstsq (to_numpy (map fst (df_train1 s))) (to_numpy (map snd (df_train1 s))) = Inl e
        \<longrightarrow> fst (cell14 lstsq s) = Some e)
   \<and> (fit lstsq (to_numpy (map fst (df_train1 s))) (to_numpy (map snd (df_train1 s))) = Inr m
        \<and> predict_array (Some m) (to_numpy (map fst (df_train1 s))) = Inl e
        \<longrightarrow> fst (cell14 lstsq s) = Some e)
   \<and> (r2_score_array (y1 s) (y_pred1 s) = Inl e \<longrightarrow> cell19 s = (Some e, s))
   \<and> (predict_array (model1 s) (to_numpy (map fst (df_test1 s))) = Inl e
        \<longrightarrow> fst (cell22 s) = Some e)
   \<and> (predict_array (model1 s) (to_numpy (map fst (df_test1 s))) = Inr p
        \<and> r2_score_array (to_numpy (map snd (df_test1 s))) p = Inl e
        \<longrightarrow> fst (cell22 s) = Some e)
   \<and> (model1 s = None \<longrightarrow> (\<exists>msg. cell24 s = (Some (AttributeError msg), s)))
   \<and> (faults s = Some e # later \<longrightarrow> fst (cell26 pk s) = Some e)
   \<and> (faults s = Some e # later \<longrightarrow> fst (cell29 pk s) = Some e)
   \<and> (list_all (\<lambda>outcome. outcome = None) (take 1 (faults s)) \<and> store s V1_KEY = None
        \<longrightarrow> (\<exists>msg. fst (cell29 pk s) = Some (ClientError msg)))
   \<and> (list_all (\<lambda>outcome. outcome = None) (take 1 (faults s)) \<and> store s V1_KEY = Some bs
        \<and> loads pk bs = Inl e
        \<longrightarrow> fst (cell29 pk s) = Some e)
   \<and> (list_all (\<lambda>outcome. outcome = None) (take 1 (faults s)) \<and> store s V1_KEY = Some bs
        \<and> loads pk bs = Inr None
        \<longrightarrow> (\<exists>msg. fst (cell29 pk s) = Some (AttributeError msg)))
   \<and> (read_parquet DATA2 s = (Inl e, s') \<longrightarrow> cell31 s = (Some e, s'))
   \<and> (predict_array (loaded_model s) (to_numpy (map fst (df2 s))) = Inl e
        \<longrightarrow> fst (cell33 s) = Some e)
   \<and> (predict_array (loaded_model s) (to_numpy (map fst (df2 s))) = Inr p
        \<and> r2_score_array (to_numpy (map snd (df2 s))) p = Inl e
        \<longrightarrow> fst (cell33 s) = Some e)
   \<and> (split rng (df2 s) TRAIN_FRAC 55 = Inl e \<longrightarrow> cell37 rng s = (Some e, s))
   \<and> (fit lstsq (to_numpy (map fst (df_train2 s))) (to_numpy (map snd (df_train2 s))) = Inl e
        \<longrightarrow> fst (cell39 lstsq s) = Some e)
   \<and> (fit lstsq (to_numpy (map fst (df_train2 s))) (to_numpy (map snd (df_train2 s))) = Inr m
        \<and> predict_array (Some m) (to_numpy (map fst (df_train2 s))) = Inl e
        \<longrightarrow> fst (cell39 lstsq s) = Some e)
   \<and> (fit lstsq (to_numpy (map fst (df_train2 s))) (to_numpy (map snd (df_train2 s))) = Inr m
        \<and> predict_array (Some m) (to_numpy (map fst (df_train2 s))) = Inr p
        \<and> r2_score_array (to_numpy (map snd (df_train2 s))) p = Inl e
        \<longrightarrow> fst (cell39 lstsq s) = Some e)
   \<and> (predict_array (model2 s) (to_numpy (map fst (df_test2 s))) = Inl e
        \<longrightarrow> fst (cell43 s) = Some e)
   \<and> (predict_array (model2 s) (to_numpy (map fst (df_test2 s))) = Inr p
        \<and> r2_score_array (to_numpy (map snd (df_test2 s))) p = Inl e
        \<longrightarrow> fst (cell43 s) = Some e)
   \<and> (model2 s = None \<longrightarrow> (\<exists>msg. cell44 s = (Some (AttributeError msg), s)))
   \<and> (faults s = Some e # later \<longrightarrow> fst (cell46 pk s) = Some e)"
proof -
  have cleanup_total: "fst (cell8 s) = None" by (rule cell8_total)
  have cleanup_logs:
    "\<forall>d. fst (seq (delete_object V1_KEY) (delete_object V2_KEY) s) = Some d \<longrightarrow>
          stdout (snd (cell8 s))
            = stdout s @ [[S (str_exn d)], [S ''Deletion failed, possibly no files'']]"
  proof (intro allI impI)
    fix d assume d: "fst (seq (delete_object V1_KEY) (delete_object V2_KEY) s) = Some d"
    obtain t where t: "seq (delete_object V1_KEY) (delete_object V2_KEY) s = (Some d, t)"
      using d by (cases "seq (delete_object V1_KEY) (delete_object V2_KEY) s") auto
    have "stdout t = stdout s"
      using t delete_object_stdout[of V1_KEY s]
        delete_object_stdout[of V2_KEY "snd (delete_object V1_KEY s)"]
      by (auto simp: seq_def split: prod.splits option.splits)
    then show "stdout (snd (cell8 s))
            = stdout s @ [[S (str_exn d)], [S ''Deletion failed, possibly no files'']]"
      using cell8_logs[OF t] by simp
  qed
  have goes_on: "run_cells (cell8 # cs) s = run_cells cs (snd (cell8 s))"
    using cleanup_total by (cases "cell8 s") auto
  have run: "notebook rng lstsq pk = pre @ c # post \<and> run_cells pre s0 = (None, s1)
        \<and> c s1 = (Some e', s2)
        \<longrightarrow> run_cells (notebook rng lstsq pk) s0 = (Some e', s2)"
    using run_cells_propagate by metis
  have c29a: "faults s = Some e # later \<longrightarrow> fst (cell29 pk s) = Some e"
    using load_model_raises(1)[of s e later pk V1_KEY] cell29_raises(1)[of pk s e] by auto
  have c29b: "list_all (\<lambda>outcome. outcome = None) (take 1 (faults s)) \<and> store s V1_KEY = None
        \<longrightarrow> (\<exists>msg. fst (cell29 pk s) = Some (ClientError msg))"
    using load_model_raises(2)[of s V1_KEY pk] cell29_raises(1)[of pk s] by auto
  have c29c: "list_all (\<lambda>outcome. outcome = None) (take 1 (faults s)) \<and> store s V1_KEY = Some bs
        \<and> loads pk bs = Inl e
        \<longrightarrow> fst (cell29 pk s) = Some e"
    using load_model_raises(3)[of s V1_KEY bs pk] cell29_raises(1)[of pk s e] by auto
  have c29d: "list_all (\<lambda>outcome. outcome = None) (take 1 (faults s)) \<and> store s V1_KEY = Some bs
        \<and> loads pk bs = Inr None
        \<longrightarrow> (\<exists>msg. fst (cell29 pk s) = Some (AttributeError msg))"
    using load_model_raises(3)[of s V1_KEY bs pk] cell29_raises(2)[of pk s] by auto
  have c26: "faults s = Some e # later \<longrightarrow> fst (cell26 pk s) = Some e"
    using save_model_raises by (simp add: cell26_def)
  have c46: "faults s = Some e # later \<longrightarrow> fst (cell46 pk s) = Some e"
    using save_model_raises by (simp add: cell46_def)
  note cells = cell10_raises cell12_raises cell14_raises cell19_raises cell22_raises
    cell24_raises cell31_raises cell33_raises cell37_raises cell39_raises cell43_raises
    cell44_raises
  show ?thesis
    apply (intro conjI)
    apply (rule cleanup_total)
    apply (rule cleanup_logs)
    apply (rule goes_on)
    apply (rule run)
    apply (blast intro: cells)
    apply (blast intro: cells)
    apply (blast intro: cells)
    apply (blast intro: cells)
    apply (blast intro: cells)
    apply (blast intro: cells)
    apply (blast intro: cells)
    apply (blast intro: cells)
    apply (rule c26)
    apply (rule c29a)
    apply (rule c29b)
    apply (rule c29c)
    apply (rule c29d)
    apply (blast intro: cells)
    apply (blast intro: cells)
    apply (blast intro: cells)
    apply (blast intro: cells)
    apply (blast intro: cells)
    apply (blast intro: cells)
    apply (blast intro: cells)
    apply (blast intro: cells)
    apply (blast intro: cells)
    apply (blast intro: cells)
    apply (rule c46)
    done
qed

theorem errors_propagate_except_cleanup_witness:
  "fst (seq (delete_object V1_KEY) (delete_object V2_KEY)
          (fresh Map.empty Map.empty [Some (ClientError ''Access Denied'')]))
     = Some (ClientError ''Access Denied'')
   \<and> stdout (snd (cell8 (fresh Map.empty Map.empty [Some (ClientError ''Access Denied'')])))
       = [[S ''Access Denied''], [S ''Deletion failed, possibly no files'']]
   \<and> fst (run_cells (notebook rot_sampler exact_lstsq byte_codec)
            (fresh Map.empty Map.empty [Some (ClientError ''Access Denied'')]))
       = Some (OSError ''No such file or directory'')"
proof -
  define s0 where "s0 = fresh Map.empty Map.empty [Some (ClientError ''Access Denied'')]"
  define s1 where "s1 = snd (cell8 s0)"
  define s2 where "s2 = snd (read_parquet DATA1 s1)"
  define post where "post = [cell12 rot_sampler, cell14 exact_lstsq, cell19, cell22, cell24,
                cell26 byte_codec, cell29 byte_codec, cell31, cell33, cell37 rot_sampler,
                cell39 exact_lstsq, cell43, cell44, cell46 byte_codec]"
  let ?e = "OSError ''No such file or directory''"
  note at_s0 = errors_propagate_except_cleanup[where s = s0 and rng = rot_sampler
      and lstsq = exact_lstsq and pk = byte_codec and pre = "[cell8]" and c = cell10
      and post = post and ?s0.0 = s0 and ?s1.0 = s1 and e' = ?e and ?s2.0 = s2]
  note at_s1 = errors_propagate_except_cleanup[where s = s1 and e = ?e and s' = s2]
  have h1: "fst (seq (delete_object V1_KEY) (delete_object V2_KEY) s0)
              = Some (ClientError ''Access Denied'')"
    by (simp add: s0_def seq_def delete_object_def request_def fresh_def Let_def)
  have h2: "notebook rot_sampler exact_lstsq byte_codec = [cell8] @ cell10 # post"
    by (simp add: post_def notebook_def first_model_cells_def new_data_cells_def)
  have "fst (cell8 s0) = None" by (rule at_s0[THEN conjunct1])
  then have h3: "run_cells [cell8] s0 = (None, s1)"
    unfolding s1_def by (cases "cell8 s0") auto
  have "fst (read_parquet DATA1 s1) = Inl ?e"
    by (simp add: s1_def s0_def cell8_def try_except_def seq_def print_def delete_object_def
        read_parquet_def request_def fresh_def Let_def)
  then have rp: "read_parquet DATA1 s1 = (Inl ?e, s2)"
    unfolding s2_def by (cases "read_parquet DATA1 s1") auto
  have h4: "cell10 s1 = (Some ?e, s2)"
    using at_s1[THEN conjunct2, THEN conjunct2, THEN conjunct2, THEN conjunct2, THEN conjunct1]
      rp by (rule mp)
  have out: "stdout s1 = stdout s0 @ [[S (str_exn (ClientError ''Access Denied''))],
                                   [S ''Deletion failed, possibly no files'']]"
    unfolding s1_def
    using at_s0[THEN conjunct2, THEN conjunct1, rule_format, OF h1] .
  have run: "run_cells (notebook rot_sampler exact_lstsq byte_codec) s0 = (Some ?e, s2)"
    using at_s0[THEN conjunct2, THEN conjunct2, THEN conjunct2, THEN conjunct1] h2 h3 h4
    by simp
  have "stdout s0 = []" by (simp add: s0_def fresh_def)
  then show ?thesis using h1 out run unfolding s1_def s0_def by simp
qed

text \<open>
  Claim C9. The two deletes of the clean-up cell share one \<open>try\<close> block: when the delete
  of the v1 object raises, the handler runs at once, the delete of the v2 object is never
  requested, and the store is left as it was.
\<close>

theorem cleanup_stops_at_first_failure:
  assumes "faults s = Some e # later"
  shows "cell8 s = (None, s\<lparr>trace := trace s @ [DeleteObject V1_KEY], faults := later,
                          stdout := stdout s @ [[S (str_exn e)],
                                                 [S ''Deletion failed, possibly no files'']]\<rparr>)
       \<and> DeleteObject V2_KEY \<notin> set (drop (length (trace s)) (trace (snd (cell8 s))))
       \<and> store (snd (cell8 s)) = store s"
  using assms
  by (simp add: cell8_def try_except_def seq_def print_def delete_object_def request_def
      Let_def V1_KEY_def V2_KEY_def)

theorem cleanup_stops_at_first_failure_witness:
  "faults (fresh [V2_KEY \<mapsto> [1, 2, 1]] bucket_tables [Some (ClientError ''Access Denied'')])
     = [Some (ClientError ''Access Denied'')]
   \<and> trace (snd (cell8 (fresh [V2_KEY \<mapsto> [1, 2, 1]] bucket_tables
                           [Some (ClientError ''Access Denied'')])))
       = [DeleteObject V1_KEY]
   \<and> store (snd (cell8 (fresh [V2_KEY \<mapsto> [1, 2, 1]] bucket_tables
                           [Some (ClientError ''Access Denied'')]))) V2_KEY
       = Some [1, 2, 1]"
proof -
  let ?s = "fresh [V2_KEY \<mapsto> [1, 2, 1]] bucket_tables [Some (ClientError ''Access Denied'')]"
  have h: "faults ?s = Some (ClientError ''Access Denied'') # []"
    by (simp add: fresh_def)
  show ?thesis using cleanup_stops_at_first_failure[OF h] by (simp add: fresh_def)
qed

lemma untouched_iff:
  "untouched k s s' \<longleftrightarrow>
     store s' k = store s k \<and> (\<exists>new. trace s' = trace s @ new \<and> list_all (\<lambda>c. \<not> writes_key k c) new)"
proof
  assume u: "untouched k s s'"
  then have "trace s' = trace s @ drop (length (trace s)) (trace s')"
    unfolding untouched_def by (metis append_take_drop_id)
  with u show "store s' k = store s k \<and> (\<exists>new. trace s' = trace s @ new \<and> list_all (\<lambda>c. \<not> writes_key k c) new)"
    unfolding untouched_def by blast
next
  assume "store s' k = store s k \<and> (\<exists>new. trace s' = trace s @ new \<and> list_all (\<lambda>c. \<not> writes_key k c) new)"
  then show "untouched k s s'" unfolding untouched_def by auto
qed

lemma untouched_refl: "untouched k s s"
  by (simp add: untouched_def)

lemma untouched_trans: "untouched k s s' \<Longrightarrow> untouched k s' s'' \<Longrightarrow> untouched k s s''"
  unfolding untouched_iff by auto

lemma untouched_same_world:
  "store s' = store s \<Longrightarrow> trace s' = trace s \<Longrightarrow> untouched k s s'"
  by (simp add: untouched_def)

lemma cell29_untouched: "cell29 pk s = (r, s') \<Longrightarrow> untouched V1_KEY s s'"
  unfolding untouched_iff
  by (auto simp: cell29_def load_model_def download_fileobj_def request_def pickle_load_def Let_def
      split: prod.splits option.splits sum.splits list.splits)

lemma cell31_untouched: "cell31 s = (r, s') \<Longrightarrow> untouched V1_KEY s s'"
  unfolding untouched_iff
  by (auto simp: cell31_def read_parquet_def request_def Let_def
      split: prod.splits option.splits sum.splits list.splits)

lemma cell33_untouched: "cell33 s = (r, s') \<Longrightarrow> untouched V1_KEY s s'"
  by (rule untouched_same_world)
     (auto simp: cell33_def print_def Let_def split: prod.splits option.splits sum.splits)

lemma cell37_untouched: "cell37 rng s = (r, s') \<Longrightarrow> untouched V1_KEY s s'"
  by (rule untouched_same_world)
     (auto simp: cell37_def print_def Let_def split: prod.splits option.splits sum.splits)

lemma cell39_untouched: "cell39 lstsq s = (r, s') \<Longrightarrow> untouched V1_KEY s s'"
  by (rule untouched_same_world)
     (auto simp: cell39_def print_def Let_def split: prod.splits option.splits sum.splits)

lemma cell43_untouched: "cell43 s = (r, s') \<Longrightarrow> untouched V1_KEY s s'"
  by (rule untouched_same_world)
     (auto simp: cell43_def print_def Let_def split: prod.splits option.splits sum.splits)

lemma cell44_untouched: "cell44 s = (r, s') \<Longrightarrow> untouched V1_KEY s s'"
  by (rule untouched_same_world)
     (auto simp: cell44_def print_def Let_def split: prod.splits option.splits sum.splits)

lemma cell46_untouched: "cell46 pk s = (r, s') \<Longrightarrow> untouched V1_KEY s s'"
  unfolding untouched_iff
  by (auto simp: cell46_def save_model_def upload_fileobj_def request_def bio_read_def Let_def
        V1_KEY_def V2_KEY_def
      split: prod.splits option.splits sum.splits list.splits)

lemma run_cells_untouched:
  assumes "\<forall>c\<in>set cs. \<forall>s r s'. c s = (r, s') \<longrightarrow> untouched k s s'"
    and "run_cells cs s = (r, s')"
  shows "untouched k s s'"
  using assms
proof (induction cs arbitrary: s)
  case Nil
  then show ?case by (simp add: untouched_refl)
next
  case (Cons c cs)
  obtain r1 s1 where c: "c s = (r1, s1)" by (cases "c s")
  have u1: "untouched k s s1" using Cons.prems(1) c by simp
  show ?case
  proof (cases r1)
    case None
    then have "run_cells cs s1 = (r, s')" using Cons.prems(2) c by simp
    moreover have "\<forall>c\<in>set cs. \<forall>s r s'. c s = (r, s') \<longrightarrow> untouched k s s'"
      using Cons.prems(1) by simp
    ultimately have "untouched k s1 s'" by (rule Cons.IH[rotated])
    then show ?thesis using u1 untouched_trans by blast
  next
    case (Some e)
    then have "s' = s1" using Cons.prems(2) c by simp
    then show ?thesis using u1 by simp
  qed
qed

lemma new_data_cells_untouched:
  assumes "run_cells (new_data_cells rng lstsq pk) s = (r, s')"
  shows "untouched V1_KEY s s'"
proof (rule run_cells_untouched[OF _ assms])
  show "\<forall>c\<in>set (new_data_cells rng lstsq pk). \<forall>s r s'. c s = (r, s') \<longrightarrow> untouched V1_KEY s s'"
    unfolding new_data_cells_def
    using cell29_untouched cell31_untouched cell33_untouched cell37_untouched
      cell39_untouched cell43_untouched cell44_untouched cell46_untouched
    by auto
qed

lemma run_cells_snoc_completed:
  assumes "run_cells (cs @ [c]) s = (None, s')"
  shows "\<exists>s1. run_cells cs s = (None, s1) \<and> c s1 = (None, s')"
  using assms
  by (auto simp: run_cells_append split: prod.splits option.splits)

lemma cell46_stores_model2:
  "cell46 pk s = (None, s') \<Longrightarrow> store s' V2_KEY = Some (dumps pk (model2 s')) "
  by (auto simp: cell46_def save_model_def upload_fileobj_def request_def pickle_dump_def
        bio_write_def bio_read_def bio_seek_def BytesIO_def Let_def
      split: prod.splits option.splits list.splits)

text \<open>
  Claim C10. Once the first cells have run and the first model is saved under the v1 key,
  nothing that follows writes to that key: however far the rest of the notebook gets, the
  object at the v1 key is the one that was there, no request made since writes or deletes
  it, and a run that completes has stored the new model under the v2 key.
\<close>

theorem retrain_leaves_v1_untouched:
  assumes "run_cells (first_model_cells rng lstsq pk) s0 = (None, s)"
    and "run_cells (notebook rng lstsq pk) s0 = (r, s')"
  shows "store s' V1_KEY = store s V1_KEY
       \<and> take (length (trace s)) (trace s') = trace s
       \<and> list_all (\<lambda>c. \<not> writes_key V1_KEY c) (drop (length (trace s)) (trace s'))
       \<and> (r = None \<longrightarrow> store s' V2_KEY = Some (dumps pk (model2 s')))"
proof -
  have run: "run_cells (new_data_cells rng lstsq pk) s = (r, s')"
    using assms by (simp add: notebook_def run_cells_append)
  then have "untouched V1_KEY s s'" by (rule new_data_cells_untouched)
  then have a: "store s' V1_KEY = store s V1_KEY
       \<and> take (length (trace s)) (trace s') = trace s
       \<and> list_all (\<lambda>c. \<not> writes_key V1_KEY c) (drop (length (trace s)) (trace s'))"
    by (simp add: untouched_def)
  have b: "r = None \<longrightarrow> store s' V2_KEY = Some (dumps pk (model2 s'))"
  proof
    assume "r = None"
    then have "run_cells ([cell29 pk, cell31, cell33, cell37 rng, cell39 lstsq, cell43, cell44] @ [cell46 pk]) s
                 = (None, s')"
      using run by (simp add: new_data_cells_def)
    then obtain s1 where "cell46 pk s1 = (None, s')"
      using run_cells_snoc_completed by blast
    then show "store s' V2_KEY = Some (dumps pk (model2 s'))" by (rule cell46_stores_model2)
  qed
  show ?thesis using a b by blast
qed

theorem retrain_leaves_v1_untouched_witness:
  "fst (run_cells (first_model_cells rot_sampler exact_lstsq byte_codec) (fresh Map.empty bucket_tables []))
     = None
   \<and> store (snd (run_cells (first_model_cells rot_sampler exact_lstsq byte_codec)
                    (fresh Map.empty bucket_tables []))) V1_KEY
       = Some [1, 10, 5]
   \<and> store (snd (run_cells (notebook rot_sampler exact_lstsq byte_codec)
                    (fresh Map.empty bucket_tables []))) V1_KEY
       = Some [1, 10, 5]"
proof -
  let ?s0 = "fresh Map.empty bucket_tables []"
  let ?first = "run_cells (first_model_cells rot_sampler exact_lstsq byte_codec) ?s0"
  let ?all = "run_cells (notebook rot_sampler exact_lstsq byte_codec) ?s0"
  have e: "fst ?first = None \<and> store (snd ?first) V1_KEY = Some [1, 10, 5]"
    by code_simp
  then have h1: "?first = (None, snd ?first)"
    by (cases ?first) auto
  have h2: "?all = (fst ?all, snd ?all)" by simp
  have "store (snd ?all) V1_KEY = store (snd ?first) V1_KEY"
    using retrain_leaves_v1_untouched[OF h1 h2] by blast
  then show ?thesis using e by simp
qed

end
